theory Spec2Isabelle
  imports Main
begin

section \<open>The store read by the report\<close>

text \<open>
  The four tables of the query in \<^verbatim>\<open>get_task_status_summary\<close>. Timestamps are
  microseconds since the epoch (UTC), scores are integers, nullable columns are options.
  The tables that are joined on a key are maps from that key, so a key names at most one row.
\<close>

record task =
  task_status :: "string option"
  task_createdAt :: int
  task_scored_jobId :: nat
  task_leadId :: nat
  task_ops_personId :: "nat option"

record scoredjob =
  sj_score :: int

record lead =
  lead_apwId :: "string option"
  lead_email :: "string option"

record opsPerson =
  op_name :: "string option"
  op_email :: "string option"

record database =
  karmafy_task :: "task list"
  karmafy_scoredjob :: "nat \<rightharpoonup> scoredjob"
  karmafy_lead :: "nat \<rightharpoonup> lead"
  karmafy_opsPerson :: "nat \<rightharpoonup> opsPerson"

text \<open>A row of the FROM clause: one task with its scored job, its lead and (left join) its operator.\<close>

record joined =
  j_apw_id :: "string option"
  j_lead_email :: "string option"
  j_ca_name :: "string option"
  j_ca_email :: "string option"
  j_score :: int
  j_status :: "string option"
  j_createdAt :: int

text \<open>A row of the result, with the column aliases of the SELECT list.\<close>

record summary_row =
  apw_id :: "string option"
  lead_email_col :: "string option"
  ca_name :: "string option"
  ca_email :: "string option"
  completed_75_plus :: nat
  pending_75_plus :: nat
  in_progress_75_plus :: nat
  not_relevant_75_plus :: nat
  job_not_found_75_plus :: nat
  already_applied_75_plus :: nat

type_synonym group_key = "string option \<times> string option \<times> string option \<times> string option"

subsection \<open>FROM and WHERE\<close>

definition left_join_op :: "database \<Rightarrow> task \<Rightarrow> opsPerson option" where
  "left_join_op db t =
     (case task_ops_personId t of None \<Rightarrow> None | Some u \<Rightarrow> karmafy_opsPerson db u)"

definition join_task :: "database \<Rightarrow> task \<Rightarrow> joined option" where
  "join_task db t =
     (case karmafy_scoredjob db (task_scored_jobId t) of
        None \<Rightarrow> None
      | Some sj \<Rightarrow>
         (case karmafy_lead db (task_leadId t) of
            None \<Rightarrow> None
          | Some l \<Rightarrow>
             Some \<lparr> j_apw_id = lead_apwId l,
                    j_lead_email = lead_email l,
                    j_ca_name = (case left_join_op db t of None \<Rightarrow> None | Some p \<Rightarrow> op_name p),
                    j_ca_email = (case left_join_op db t of None \<Rightarrow> None | Some p \<Rightarrow> op_email p),
                    j_score = sj_score sj,
                    j_status = task_status t,
                    j_createdAt = task_createdAt t \<rparr>))"

definition from_clause :: "database \<Rightarrow> joined list" where
  "from_clause db = List.map_filter (join_task db) (karmafy_task db)"

text \<open>\<^verbatim>\<open>TIMESTAMPTZ '2025-12-23 00:00:00+00'\<close> and \<^verbatim>\<open>'2025-12-24 00:00:00+00'\<close>.\<close>

definition window_start :: int where
  "window_start = 1766448000 * 1000000"

definition window_end :: int where
  "window_end = 1766534400 * 1000000"

definition in_window :: "int \<Rightarrow> bool" where
  "in_window ts \<longleftrightarrow> window_start \<le> ts \<and> ts < window_end"

definition where_clause :: "joined list \<Rightarrow> joined list" where
  "where_clause js = filter (\<lambda>j. in_window (j_createdAt j)) js"

subsection \<open>The aggregates\<close>

text \<open>\<^verbatim>\<open>LOWER\<close> on the ASCII letters; other characters are left alone.\<close>

definition lower_char :: "char \<Rightarrow> char" where
  "lower_char c =
     (if 65 \<le> (of_char c :: nat) \<and> (of_char c :: nat) \<le> 90
      then char_of (of_char c + (32 :: nat)) else c)"

definition lower :: "string \<Rightarrow> string" where
  "lower s = map lower_char s"

definition status_is :: "string \<Rightarrow> joined \<Rightarrow> bool" where
  "status_is name j = (case j_status j of None \<Rightarrow> False | Some s \<Rightarrow> lower s = name)"

text \<open>\<^verbatim>\<open>COUNT(*) FILTER (WHERE sj.score >= 75 AND LOWER(t.status) = name)\<close> over one group.\<close>

definition count_filter :: "string \<Rightarrow> joined list \<Rightarrow> nat" where
  "count_filter name grp = length (filter (\<lambda>j. 75 \<le> j_score j \<and> status_is name j) grp)"

definition key_of :: "joined \<Rightarrow> group_key" where
  "key_of j = (j_apw_id j, j_lead_email j, j_ca_name j, j_ca_email j)"

definition group_of :: "group_key \<Rightarrow> joined list \<Rightarrow> joined list" where
  "group_of k js = filter (\<lambda>j. key_of j = k) js"

definition select_row :: "group_key \<Rightarrow> joined list \<Rightarrow> summary_row" where
  "select_row k grp =
     (case k of (a, le, cn, ce) \<Rightarrow>
       \<lparr> apw_id = a, lead_email_col = le, ca_name = cn, ca_email = ce,
         completed_75_plus = count_filter ''completed'' grp,
         pending_75_plus = count_filter ''pending'' grp,
         in_progress_75_plus = count_filter ''in_progress'' grp,
         not_relevant_75_plus = count_filter ''not_relevant'' grp,
         job_not_found_75_plus = count_filter ''job_not_found'' grp,
         already_applied_75_plus = count_filter ''already_applied'' grp \<rparr>)"

definition group_by :: "joined list \<Rightarrow> summary_row list" where
  "group_by js = map (\<lambda>k. select_row k (group_of k js)) (remdups (map key_of js))"

subsection \<open>ORDER BY op.name\<close>

text \<open>
  Ascending, nulls last; strings compare by character code. The order among rows with
  the same name is the store's choice: here the insertion sort keeps the order of the groups.
\<close>

fun str_le :: "string \<Rightarrow> string \<Rightarrow> bool" where
  "str_le [] _ = True"
| "str_le (_ # _) [] = False"
| "str_le (a # as) (b # bs) =
     ((of_char a :: nat) < of_char b \<or> (a = b \<and> str_le as bs))"

fun name_le :: "string option \<Rightarrow> string option \<Rightarrow> bool" where
  "name_le _ None = True"
| "name_le None (Some _) = False"
| "name_le (Some a) (Some b) = str_le a b"

fun insert_row :: "summary_row \<Rightarrow> summary_row list \<Rightarrow> summary_row list" where
  "insert_row r [] = [r]"
| "insert_row r (x # xs) =
     (if name_le (ca_name r) (ca_name x) then r # x # xs else x # insert_row r xs)"

fun order_by :: "summary_row list \<Rightarrow> summary_row list" where
  "order_by [] = []"
| "order_by (r # rs) = insert_row r (order_by rs)"

definition run_query :: "database \<Rightarrow> summary_row list" where
  "run_query db = order_by (group_by (where_clause (from_clause db)))"


subsection \<open>Reading a result row, and the tasks behind it\<close>

definition row_key :: "summary_row \<Rightarrow> group_key" where
  "row_key r = (apw_id r, lead_email_col r, ca_name r, ca_email r)"

definition row_total :: "summary_row \<Rightarrow> nat" where
  "row_total r = completed_75_plus r + pending_75_plus r + in_progress_75_plus r
     + not_relevant_75_plus r + job_not_found_75_plus r + already_applied_75_plus r"

definition total_counted :: "summary_row list \<Rightarrow> nat" where
  "total_counted rows = sum_list (map row_total rows)"

text \<open>The six status values that have a counter.\<close>

definition recognized :: "string option \<Rightarrow> bool" where
  "recognized st = (case st of None \<Rightarrow> False | Some s \<Rightarrow>
     lower s \<in> set [''completed'', ''pending'', ''in_progress'', ''not_relevant'',
                     ''job_not_found'', ''already_applied''])"

text \<open>
  An eligible task, in the words of the specification: its scored job has a score of at
  least 75 and it was created in the window. The task must join (its scored job and its
  lead exist) for the score and the group to be defined at all.
\<close>

definition eligible :: "database \<Rightarrow> task \<Rightarrow> bool" where
  "eligible db t =
     (case join_task db t of None \<Rightarrow> False
      | Some j \<Rightarrow> in_window (j_createdAt j) \<and> 75 \<le> j_score j)"

definition task_key :: "database \<Rightarrow> task \<Rightarrow> group_key option" where
  "task_key db t = map_option key_of (join_task db t)"

definition eligible_in_group :: "database \<Rightarrow> group_key \<Rightarrow> task list" where
  "eligible_in_group db k =
     filter (\<lambda>t. eligible db t \<and> task_key db t = Some k) (karmafy_task db)"

definition counted_in_group :: "database \<Rightarrow> group_key \<Rightarrow> task list" where
  "counted_in_group db k =
     filter (\<lambda>t. eligible db t \<and> recognized (task_status t) \<and> task_key db t = Some k)
       (karmafy_task db)"

definition eligible_keys :: "database \<Rightarrow> group_key list" where
  "eligible_keys db = List.map_filter (task_key db) (filter (eligible db) (karmafy_task db))"

definition window_keys :: "database \<Rightarrow> group_key list" where
  "window_keys db =
     List.map_filter (task_key db) (filter (\<lambda>t. in_window (task_createdAt t)) (karmafy_task db))"

text \<open>Two tasks that differ at most in the letter case of their status.\<close>

definition same_up_to_case :: "task \<Rightarrow> task \<Rightarrow> bool" where
  "same_up_to_case t t' \<longleftrightarrow>
     map_option lower (task_status t) = map_option lower (task_status t')
     \<and> task_createdAt t = task_createdAt t'
     \<and> task_scored_jobId t = task_scored_jobId t'
     \<and> task_leadId t = task_leadId t'
     \<and> task_ops_personId t = task_ops_personId t'"

definition joined_alike :: "joined \<Rightarrow> joined \<Rightarrow> bool" where
  "joined_alike j j' \<longleftrightarrow>
     key_of j = key_of j' \<and> j_score j = j_score j' \<and> j_createdAt j = j_createdAt j'
     \<and> map_option lower (j_status j) = map_option lower (j_status j')"

subsection \<open>A small store for the examples\<close>

text \<open>One lead, one operator, one scored job with the given score, and the given tasks.\<close>

definition mk_db :: "task list \<Rightarrow> int \<Rightarrow> database" where
  "mk_db ts sc =
     \<lparr> karmafy_task = ts,
       karmafy_scoredjob = [1 \<mapsto> \<lparr> sj_score = sc \<rparr>],
       karmafy_lead = [1 \<mapsto> \<lparr> lead_apwId = Some ''APW-1'', lead_email = Some ''lead@example.com'' \<rparr>],
       karmafy_opsPerson = [7 \<mapsto> \<lparr> op_name = Some ''Jane Doe'', op_email = Some ''jane@example.com'' \<rparr>] \<rparr>"

definition mk_task :: "string \<Rightarrow> int \<Rightarrow> task" where
  "mk_task st ts =
     \<lparr> task_status = Some st, task_createdAt = ts, task_scored_jobId = 1,
       task_leadId = 1, task_ops_personId = Some 7 \<rparr>"

definition jane_key :: group_key where
  "jane_key = (Some ''APW-1'', Some ''lead@example.com'', Some ''Jane Doe'', Some ''jane@example.com'')"

definition jane_row :: "nat \<Rightarrow> nat \<Rightarrow> summary_row" where
  "jane_row c p =
     \<lparr> apw_id = Some ''APW-1'', lead_email_col = Some ''lead@example.com'',
       ca_name = Some ''Jane Doe'', ca_email = Some ''jane@example.com'',
       completed_75_plus = c, pending_75_plus = p, in_progress_75_plus = 0,
       not_relevant_75_plus = 0, job_not_found_75_plus = 0, already_applied_75_plus = 0 \<rparr>"

subsection \<open>The literal text of the row template\<close>

text \<open>
  The f-string added to \<^verbatim>\<open>task_rows\<close> for each row, cut at its twelve
  interpolations. Strings are the UTF-8 bytes of the source text.
\<close>

definition row_lit_0 :: string where
  \<open>row_lit_0 =
    concat
    [''\<newline>'',
     ''        <tr style="border-bottom: 1px solid #e5e7eb;">\<newline>'',
     ''            <td style="padding: 10px 8px; text-align: center; color: #6b7280; font-weight: 600; font-size: 13px;">'']\<close>

definition row_lit_1 :: string where
  \<open>row_lit_1 =
    concat
    [''</td>\<newline>'',
     ''            <td style="padding: 10px 8px; text-align: center; color: #111827; font-weight: 600; font-size: 13px;">'']\<close>

definition row_lit_2 :: string where
  \<open>row_lit_2 =
    concat
    [''</td>\<newline>'',
     ''            <td style="padding: 10px 8px; color: #4b5563; font-family: ui-monospace, monospace; font-size: 12px;">'']\<close>

definition row_lit_3 :: string where
  \<open>row_lit_3 =
    concat
    [''</td>\<newline>'',
     ''            <td style="padding: 10px 8px; color: #111827; font-weight: 600; font-size: 13px;">'']\<close>

definition row_lit_4 :: string where
  \<open>row_lit_4 =
    concat
    [''</td>\<newline>'',
     ''            <td style="padding: 10px 8px; color: #6b7280; font-family: ui-monospace, monospace; font-size: 12px;">'']\<close>

definition row_lit_5 :: string where
  \<open>row_lit_5 =
    concat
    [''</td>\<newline>'',
     ''            <td style="padding: 10px 8px; text-align: center; font-weight: 700; color: #059669; font-size: 13px;">'']\<close>

definition row_lit_6 :: string where
  \<open>row_lit_6 =
    concat
    [''</td>\<newline>'',
     ''            <td style="padding: 10px 8px; text-align: center; font-weight: 700; color: #f59e0b; font-size: 13px;">'']\<close>

definition row_lit_7 :: string where
  \<open>row_lit_7 =
    concat
    [''</td>\<newline>'',
     ''            <td style="padding: 10px 8px; text-align: center; font-weight: 700; color: #3b82f6; font-size: 13px;">'']\<close>

definition row_lit_8 :: string where
  \<open>row_lit_8 =
    concat
    [''</td>\<newline>'',
     ''            <td style="padding: 10px 8px; text-align: center; font-weight: 700; color: #6b7280; font-size: 13px;">'']\<close>

definition row_lit_9 :: string where
  \<open>row_lit_9 =
    concat
    [''</td>\<newline>'',
     ''            <td style="padding: 10px 8px; text-align: center; font-weight: 700; color: #dc2626; font-size: 13px;">'']\<close>

definition row_lit_10 :: string where
  \<open>row_lit_10 =
    concat
    [''</td>\<newline>'',
     ''            <td style="padding: 10px 8px; text-align: center; font-weight: 700; color: #8b5cf6; font-size: 13px;">'']\<close>

definition row_lit_11 :: string where
  \<open>row_lit_11 =
    concat
    [''</td>\<newline>'',
     ''            <td style="padding: 10px 8px; text-align: center; font-weight: 700; color: #111827; font-size: 13px; background-color: #f3f4f6;">'']\<close>

definition row_lit_12 :: string where
  \<open>row_lit_12 =
    concat
    [''</td>\<newline>'',
     ''        </tr>\<newline>'',
     ''        '']\<close>

subsection \<open>The literal text of the document template\<close>

text \<open>The f-string bound to \<^verbatim>\<open>html\<close>, cut at its ten interpolations.\<close>

definition html_lit_0 :: string where
  \<open>html_lit_0 =
    concat
    [''<!DOCTYPE html>\<newline>'',
     ''<html lang="en">\<newline>'',
     ''<head>\<newline>'',
     ''  <meta charSet="UTF-8" />\<newline>'',
     ''  <title>'']\<close>

definition html_lit_1 :: string where
  \<open>html_lit_1 =
    concat
    ['' '' @ [CHR 0xE2, CHR 0x80, CHR 0x9A, CHR 0xC3, CHR 0x84, CHR 0xC3, CHR 0xAC] @ '' Daily Task Status Report (Score '' @ [CHR 0xE2, CHR 0x80, CHR 0x9A, CHR 0xC3, CHR 0xA2, CHR 0xE2, CHR 0x80, CHR 0xA2] @ '' 75)</title>\<newline>'',
     ''  <meta name="viewport" content="width=device-width, initial-scale=1" />\<newline>'',
     ''  <style>\<newline>'',
     ''    body {\<newline>'',
     ''      margin: 0;\<newline>'',
     ''      padding: 0;\<newline>'',
     ''      background-color: #f3f4f6;\<newline>'',
     ''      font-family: system-ui, -apple-system, BlinkMacSystemFont, "Segoe UI", sans-serif;\<newline>'',
     ''      color: #111827;\<newline>'',
     ''    }\<newline>'',
     ''    .container {\<newline>'',
     ''      max-width: 1400px;\<newline>'',
     ''      margin: 32px auto;\<newline>'',
     ''      background: #ffffff;\<newline>'',
     ''      border-radius: 16px;\<newline>'',
     ''      overflow: hidden;\<newline>'',
     ''      box-shadow: 0 18px 45px rgba(15, 23, 42, 0.12);\<newline>'',
     ''    }\<newline>'',
     ''    .header {\<newline>'',
     ''      background: linear-gradient(135deg, #3b82f6, #8b5cf6);\<newline>'',
     ''      padding: 24px 32px;\<newline>'',
     ''      color: white;\<newline>'',
     ''      text-align: left;\<newline>'',
     ''    }\<newline>'',
     ''    .title {\<newline>'',
     ''      background-color: #3b82f6;\<newline>'',
     ''      margin-top: 10px;\<newline>'',
     ''      font-size: 24px;\<newline>'',
     ''      font-weight: 700;\<newline>'',
     ''      color: white;\<newline>'',
     ''    }\<newline>'',
     ''    .sub {\<newline>'',
     ''      background-color: #3b82f6;\<newline>'',
     ''      margin-top: 6px;\<newline>'',
     ''      font-size: 14px;\<newline>'',
     ''      opacity: 0.9;\<newline>'',
     ''      color: white;\<newline>'',
     ''    }\<newline>'',
     ''    .body {\<newline>'',
     ''      padding: 24px 32px 32px;\<newline>'',
     ''      font-size: 14px;\<newline>'',
     ''      line-height: 1.6;\<newline>'',
     ''    }\<newline>'',
     ''    .info-box {\<newline>'',
     ''      background-color: #eff6ff;\<newline>'',
     ''      border-left: 4px solid #3b82f6;\<newline>'',
     ''      padding: 16px;\<newline>'',
     ''      margin: 20px 0;\<newline>'',
     ''      border-radius: 8px;\<newline>'',
     ''    }\<newline>'',
     ''    .table-wrapper {\<newline>'',
     ''      overflow-x: auto;\<newline>'',
     ''      margin: 20px 0;\<newline>'',
     ''    }\<newline>'',
     ''    table {\<newline>'',
     ''      width: 100%;\<newline>'',
     ''      min-width: 1300px;\<newline>'',
     ''      border-collapse: collapse;\<newline>'',
     ''      background: white;\<newline>'',
     ''      border: 1px solid #e5e7eb;\<newline>'',
     ''      border-radius: 8px;\<newline>'',
     ''      overflow: hidden;\<newline>'',
     ''    }\<newline>'',
     ''    th {\<newline>'',
     ''      background: #f9fafb;\<newline>'',
     ''      padding: 10px 8px;\<newline>'',
     ''      text-align: left;\<newline>'',
     ''      font-weight: 700;\<newline>'',
     ''      font-size: 11px;\<newline>'',
     ''      text-transform: uppercase;\<newline>'',
     ''      letter-spacing: 0.03em;\<newline>'',
     ''      color: #6b7280;\<newline>'',
     ''      border-bottom: 2px solid #e5e7eb;\<newline>'',
     ''      white-space: nowrap;\<newline>'',
     ''    }\<newline>'',
     ''    td {\<newline>'',
     ''      padding: 10px 8px;\<newline>'',
     ''      font-size: 13px;\<newline>'',
     ''      border-bottom: 1px solid #f3f4f6;\<newline>'',
     ''    }\<newline>'',
     ''    th:nth-child(1), th:nth-child(2), th:nth-child(6), th:nth-child(7), th:nth-child(8), \<newline>'',
     ''    th:nth-child(9), th:nth-child(10), th:nth-child(11), th:nth-child(12) {\<newline>'',
     ''      text-align: center;\<newline>'',
     ''    }\<newline>'',
     ''    .footer {\<newline>'',
     ''      padding: 16px 32px 24px;\<newline>'',
     ''      font-size: 11px;\<newline>'',
     ''      color: #9ca3af;\<newline>'',
     ''      text-align: center;\<newline>'',
     ''    }\<newline>'',
     ''    .cta-button {\<newline>'',
     ''      display: inline-block;\<newline>'',
     ''      margin-top: 18px;\<newline>'',
     ''      padding: 12px 24px;\<newline>'',
     ''      background: linear-gradient(135deg, #3b82f6, #8b5cf6);\<newline>'',
     ''      color: white !important;\<newline>'',
     ''      text-decoration: none;\<newline>'',
     ''      border-radius: 999px;\<newline>'',
     ''      font-weight: 600;\<newline>'',
     ''      font-size: 14px;\<newline>'',
     ''    }\<newline>'',
     ''    .legend {\<newline>'',
     ''      display: flex;\<newline>'',
     ''      flex-wrap: wrap;\<newline>'',
     ''      gap: 16px;\<newline>'',
     ''      margin: 20px 0;\<newline>'',
     ''      padding: 16px;\<newline>'',
     ''      background: #f9fafb;\<newline>'',
     ''      border-radius: 8px;\<newline>'',
     ''    }\<newline>'',
     ''    .legend-item {\<newline>'',
     ''      display: flex;\<newline>'',
     ''      align-items: center;\<newline>'',
     ''      gap: 8px;\<newline>'',
     ''      font-size: 12px;\<newline>'',
     ''    }\<newline>'',
     ''    .legend-color {\<newline>'',
     ''      width: 16px;\<newline>'',
     ''      height: 16px;\<newline>'',
     ''      border-radius: 4px;\<newline>'',
     ''    }\<newline>'',
     ''  </style>\<newline>'',
     ''</head>\<newline>'',
     ''<body>\<newline>'',
     ''  <div class="container">\<newline>'',
     ''    <div class="header">\<newline>'',
     ''      <div class="title">'' @ [CHR 0xEF, CHR 0xA3, CHR 0xBF, CHR 0xC3, CHR 0xBC, CHR 0xC3, CHR 0xAC, CHR 0xC3, CHR 0xA4] @ '' Daily Task Status Report (Score '' @ [CHR 0xE2, CHR 0x80, CHR 0x9A, CHR 0xC3, CHR 0xA2, CHR 0xE2, CHR 0x80, CHR 0xA2] @ '' 75)</div>\<newline>'',
     ''      <div class="sub">\<newline>'',
     ''        Task status breakdown for '']\<close>

definition html_lit_2 :: string where
  \<open>html_lit_2 =
    '' lead-CA combination(s) - ''\<close>

definition html_lit_3 :: string where
  \<open>html_lit_3 =
    concat
    [''\<newline>'',
     ''      </div>\<newline>'',
     ''    </div>\<newline>'',
     ''    <div class="body">\<newline>'',
     ''      <p>Hi Team,</p>\<newline>'',
     ''      <p>\<newline>'',
     ''        This is your daily task status report showing the breakdown of all tasks created today with a score of <strong>75 or higher</strong>, grouped by lead and assigned CA (Customer Advocate).\<newline>'',
     ''      </p>\<newline>'',
     ''\<newline>'',
     ''      <div class="info-box">\<newline>'',
     ''        <strong>'' @ [CHR 0xE2, CHR 0x80, CHR 0x9A, CHR 0xC3, CHR 0x91, CHR 0xCF, CHR 0x80, CHR 0xC3, CHR 0x94, CHR 0xE2, CHR 0x88, CHR 0x8F, CHR 0xC3, CHR 0xA8] @ '' Report Details:</strong> This report includes only tasks with scores '' @ [CHR 0xE2, CHR 0x80, CHR 0x9A, CHR 0xC3, CHR 0xA2, CHR 0xE2, CHR 0x80, CHR 0xA2] @ '' 75 created on '']\<close>

definition html_lit_4 :: string where
  \<open>html_lit_4 =
    concat
    ['' (UTC).\<newline>'',
     ''      </div>\<newline>'',
     ''\<newline>'',
     ''      <div class="legend">\<newline>'',
     ''        <div class="legend-item">\<newline>'',
     ''          <div class="legend-color" style="background-color: #059669;"></div>\<newline>'',
     ''          <span><strong>Completed:</strong> Tasks successfully completed</span>\<newline>'',
     ''        </div>\<newline>'',
     ''        <div class="legend-item">\<newline>'',
     ''          <div class="legend-color" style="background-color: #f59e0b;"></div>\<newline>'',
     ''          <span><strong>Pending:</strong> Tasks awaiting action</span>\<newline>'',
     ''        </div>\<newline>'',
     ''        <div class="legend-item">\<newline>'',
     ''          <div class="legend-color" style="background-color: #3b82f6;"></div>\<newline>'',
     ''          <span><strong>In Progress:</strong> Tasks currently being worked on</span>\<newline>'',
     ''        </div>\<newline>'',
     ''        <div class="legend-item">\<newline>'',
     ''          <div class="legend-color" style="background-color: #6b7280;"></div>\<newline>'',
     ''          <span><strong>Not Relevant:</strong> Tasks marked as not relevant</span>\<newline>'',
     ''        </div>\<newline>'',
     ''        <div class="legend-item">\<newline>'',
     ''          <div class="legend-color" style="background-color: #dc2626;"></div>\<newline>'',
     ''          <span><strong>Job Not Found:</strong> Tasks where job posting was not found</span>\<newline>'',
     ''        </div>\<newline>'',
     ''        <div class="legend-item">\<newline>'',
     ''          <div class="legend-color" style="background-color: #8b5cf6;"></div>\<newline>'',
     ''          <span><strong>Already Applied:</strong> Jobs already applied to</span>\<newline>'',
     ''        </div>\<newline>'',
     ''      </div>\<newline>'',
     ''\<newline>'',
     ''      <h3 style="color: #111827; margin-top: 24px;">Task Status Breakdown by Lead & CA</h3>\<newline>'',
     ''      \<newline>'',
     ''      <div class="table-wrapper">\<newline>'',
     ''        <table>\<newline>'',
     ''          <thead>\<newline>'',
     ''            <tr>\<newline>'',
     ''              <th>#</th>\<newline>'',
     ''              <th>APW ID</th>\<newline>'',
     ''              <th>Lead Email</th>\<newline>'',
     ''              <th>CA Name</th>\<newline>'',
     ''              <th>CA Email</th>\<newline>'',
     ''              <th style="background-color: #ecfdf5;">Completed</th>\<newline>'',
     ''              <th style="background-color: #fffbeb;">Pending</th>\<newline>'',
     ''              <th style="background-color: #eff6ff;">In Progress</th>\<newline>'',
     ''              <th style="background-color: #f9fafb;">Not Relevant</th>\<newline>'',
     ''              <th style="background-color: #fef2f2;">Job Not Found</th>\<newline>'',
     ''              <th style="background-color: #f5f3ff;">Already Applied</th>\<newline>'',
     ''              <th style="background-color: #f3f4f6;">Total</th>\<newline>'',
     ''            </tr>\<newline>'',
     ''          </thead>\<newline>'',
     ''          <tbody>\<newline>'',
     ''            '']\<close>

definition html_lit_5 :: string where
  \<open>html_lit_5 =
    concat
    [''\<newline>'',
     ''          </tbody>\<newline>'',
     ''        </table>\<newline>'',
     ''      </div>\<newline>'',
     ''\<newline>'',
     ''      <p style="margin-top: 24px; color: #6b7280; font-size: 13px;">\<newline>'',
     ''        <strong>Key Insights:</strong>\<newline>'',
     ''      </p>\<newline>'',
     ''      <ul style="color: #6b7280; font-size: 13px;">\<newline>'',
     ''        <li>Review leads with high "Not Relevant" or "Job Not Found" counts</li>\<newline>'',
     ''        <li>Monitor "Pending" tasks to ensure timely completion</li>\<newline>'',
     ''        <li>Check "Already Applied" tasks to avoid duplicate applications</li>\<newline>'',
     ''        <li>Celebrate leads with high "Completed" task counts</li>\<newline>'',
     ''      </ul>\<newline>'',
     ''\<newline>'',
     ''      <a href="'']\<close>

definition html_lit_6 :: string where
  \<open>html_lit_6 =
    concat
    [''" class="cta-button" target="_blank" rel="noopener noreferrer">\<newline>'',
     ''        View Dashboard\<newline>'',
     ''      </a>\<newline>'',
     ''\<newline>'',
     ''      <p style="margin-top: 24px; color: #9ca3af; font-size: 12px;">\<newline>'',
     ''        This is an automated notification from '']\<close>

definition html_lit_7 :: string where
  \<open>html_lit_7 =
    ''. Generated on ''\<close>

definition html_lit_8 :: string where
  \<open>html_lit_8 =
    concat
    [''.\<newline>'',
     ''      </p>\<newline>'',
     ''    </div>\<newline>'',
     ''    <div class="footer">\<newline>'',
     ''      '' @ [CHR 0xC2, CHR 0xAC, CHR 0xC2, CHR 0xA9] @ '' '']\<close>

definition html_lit_9 :: string where
  \<open>html_lit_9 =
    '' ''\<close>

definition html_lit_10 :: string where
  \<open>html_lit_10 =
    concat
    [''. All rights reserved.\<newline>'',
     ''    </div>\<newline>'',
     ''  </div>\<newline>'',
     ''</body>\<newline>'',
     ''</html>\<newline>'']\<close>

section \<open>The report script\<close>

subsection \<open>Values, errors and text\<close>

text \<open>
  What a cell of a result row can hold once the cursor has turned it into a Python
  \<^verbatim>\<open>dict\<close>: \<^verbatim>\<open>None\<close>, an integer or a string. A row is an association list in
  the order of its keys.
\<close>

datatype pyval = PNone | PInt int | PStr string

type_synonym pydict = "(string \<times> pyval) list"

datatype error =
    ValueError string
  | TypeError
  | HTTPException nat string
  | OtherException string

text \<open>\<^verbatim>\<open>d.get(k, default)\<close>.\<close>

definition dict_get :: "pydict \<Rightarrow> string \<Rightarrow> pyval \<Rightarrow> pyval" where
  "dict_get d k dflt = (case map_of d k of None \<Rightarrow> dflt | Some v \<Rightarrow> v)"

fun truthy :: "pyval \<Rightarrow> bool" where
  "truthy PNone = False"
| "truthy (PInt i) = (i \<noteq> 0)"
| "truthy (PStr s) = (s \<noteq> [])"

text \<open>\<^verbatim>\<open>a or b\<close>.\<close>

definition py_or :: "pyval \<Rightarrow> pyval \<Rightarrow> pyval" where
  "py_or a b = (if truthy a then a else b)"

text \<open>\<^verbatim>\<open>a + b\<close>: integers add, strings concatenate, anything else raises.\<close>

fun py_add :: "pyval \<Rightarrow> pyval \<Rightarrow> error + pyval" where
  "py_add (PInt a) (PInt b) = Inr (PInt (a + b))"
| "py_add (PStr a) (PStr b) = Inr (PStr (a @ b))"
| "py_add _ _ = Inl TypeError"

text \<open>Decimal text of a number, as \<^verbatim>\<open>str\<close> and the f-string give it.\<close>

definition digit_char :: "nat \<Rightarrow> char" where
  "digit_char d = char_of (48 + d)"

fun str_nat :: "nat \<Rightarrow> string" where
  "str_nat n = (if n < 10 then [digit_char n] else str_nat (n div 10) @ [digit_char (n mod 10)])"

declare str_nat.simps [simp del]

definition str_int :: "int \<Rightarrow> string" where
  "str_int i = (if i < 0 then CHR ''-'' # str_nat (nat (- i)) else str_nat (nat i))"

text \<open>What an f-string puts in place of \<^verbatim>\<open>{v}\<close>.\<close>

fun py_str :: "pyval \<Rightarrow> string" where
  "py_str PNone = ''None''"
| "py_str (PInt i) = str_int i"
| "py_str (PStr s) = s"

subsection \<open>The clock\<close>

text \<open>
  \<^verbatim>\<open>datetime.utcnow()\<close>. The script reads the clock several times during one run; the
  model takes one reading. Years have four digits.
\<close>

record utc =
  utc_year :: nat
  utc_month :: nat
  utc_day :: nat
  utc_hour :: nat
  utc_minute :: nat

definition pad2 :: "nat \<Rightarrow> string" where
  "pad2 n = (if n < 10 then CHR ''0'' # str_nat n else str_nat n)"

text \<open>\<^verbatim>\<open>strftime('%Y-%m-%d')\<close> and \<^verbatim>\<open>strftime('%Y-%m-%d %H:%M UTC')\<close>.\<close>

definition strftime_date :: "utc \<Rightarrow> string" where
  "strftime_date t = str_nat (utc_year t) @ ''-'' @ pad2 (utc_month t) @ ''-'' @ pad2 (utc_day t)"

definition strftime_minute :: "utc \<Rightarrow> string" where
  "strftime_minute t =
     strftime_date t @ '' '' @ pad2 (utc_hour t) @ '':'' @ pad2 (utc_minute t) @ '' UTC''"

subsection \<open>build\_task\_status\_email\_template\<close>

text \<open>The values of the twelve interpolations of one row, in the order of the template.\<close>

definition total_tasks :: "pydict \<Rightarrow> error + pyval" where
  "total_tasks task =
     (let completed = dict_get task ''completed_75_plus'' (PInt 0);
          pending = dict_get task ''pending_75_plus'' (PInt 0);
          in_progress = dict_get task ''in_progress_75_plus'' (PInt 0);
          not_relevant = dict_get task ''not_relevant_75_plus'' (PInt 0);
          job_not_found = dict_get task ''job_not_found_75_plus'' (PInt 0);
          already_applied = dict_get task ''already_applied_75_plus'' (PInt 0)
      in case py_add completed pending of Inl e \<Rightarrow> Inl e | Inr s1 \<Rightarrow>
         (case py_add s1 in_progress of Inl e \<Rightarrow> Inl e | Inr s2 \<Rightarrow>
         (case py_add s2 not_relevant of Inl e \<Rightarrow> Inl e | Inr s3 \<Rightarrow>
         (case py_add s3 job_not_found of Inl e \<Rightarrow> Inl e | Inr s4 \<Rightarrow>
          py_add s4 already_applied))))"

definition row_values :: "nat \<Rightarrow> pydict \<Rightarrow> error + pyval list" where
  "row_values idx task =
     (let apw_id = py_or (dict_get task ''apw_id'' (PStr ''N/A'')) (PStr ''N/A'');
          lead_email = dict_get task ''lead_email'' (PStr ''N/A'');
          ca_name = py_or (dict_get task ''ca_name'' (PStr ''N/A'')) (PStr ''N/A'');
          ca_email = py_or (dict_get task ''ca_email'' (PStr ''N/A'')) (PStr ''N/A'');
          completed = dict_get task ''completed_75_plus'' (PInt 0);
          pending = dict_get task ''pending_75_plus'' (PInt 0);
          in_progress = dict_get task ''in_progress_75_plus'' (PInt 0);
          not_relevant = dict_get task ''not_relevant_75_plus'' (PInt 0);
          job_not_found = dict_get task ''job_not_found_75_plus'' (PInt 0);
          already_applied = dict_get task ''already_applied_75_plus'' (PInt 0)
      in case total_tasks task of
           Inl e \<Rightarrow> Inl e
         | Inr tot \<Rightarrow>
             Inr [PInt (int idx), apw_id, lead_email, ca_name, ca_email, completed, pending,
                  in_progress, not_relevant, job_not_found, already_applied, tot])"

text \<open>The row f-string: its literal text around the twelve formatted values.\<close>

definition row_literals :: "string list" where
  "row_literals = [row_lit_0, row_lit_1, row_lit_2, row_lit_3, row_lit_4, row_lit_5, row_lit_6,
     row_lit_7, row_lit_8, row_lit_9, row_lit_10, row_lit_11, row_lit_12]"

fun fstring :: "string list \<Rightarrow> string list \<Rightarrow> string" where
  "fstring (l # ls) (v # vs) = l @ v @ fstring ls vs"
| "fstring (l # ls) [] = l"
| "fstring [] _ = []"

definition render_row :: "nat \<Rightarrow> pydict \<Rightarrow> error + string" where
  "render_row idx task =
     (case row_values idx task of
        Inl e \<Rightarrow> Inl e
      | Inr vs \<Rightarrow> Inr (fstring row_literals (map py_str vs)))"

text \<open>\<^verbatim>\<open>for idx, task in enumerate(tasks_data, 1): task_rows += ...\<close>\<close>

fun task_rows_loop :: "nat \<Rightarrow> pydict list \<Rightarrow> string \<Rightarrow> error + string" where
  "task_rows_loop idx [] task_rows = Inr task_rows"
| "task_rows_loop idx (task # rest) task_rows =
     (case render_row idx task of
        Inl e \<Rightarrow> Inl e
      | Inr r \<Rightarrow> task_rows_loop (Suc idx) rest (task_rows @ r))"

definition html_literals :: "string list" where
  "html_literals = [html_lit_0, html_lit_1, html_lit_2, html_lit_3, html_lit_4, html_lit_5,
     html_lit_6, html_lit_7, html_lit_8, html_lit_9, html_lit_10]"

definition html_document :: "string \<Rightarrow> nat \<Rightarrow> string \<Rightarrow> string \<Rightarrow> utc \<Rightarrow> string" where
  "html_document app_name n task_rows support_url now =
     fstring html_literals
       [app_name, str_nat n, strftime_date now, strftime_date now, task_rows, support_url,
        app_name, strftime_minute now, str_nat (utc_year now), app_name]"

definition build_task_status_email_template ::
    "string \<Rightarrow> pydict list \<Rightarrow> string \<Rightarrow> utc \<Rightarrow> error + string" where
  "build_task_status_email_template app_name tasks_data support_url now =
     (case task_rows_loop 1 tasks_data [] of
        Inl e \<Rightarrow> Inl e
      | Inr task_rows \<Rightarrow>
          Inr (html_document app_name (length tasks_data) task_rows support_url now))"

definition default_support_url :: string where
  "default_support_url = ''https://dashboard.apply-wizz.com/''"

subsection \<open>Configuration read when the module is loaded\<close>

text \<open>The environment, after \<^verbatim>\<open>load_dotenv\<close>: \<^verbatim>\<open>os.getenv(k)\<close> is \<open>env k\<close>.\<close>

type_synonym environ = "string \<rightharpoonup> string"

record config =
  TENANT_ID :: string
  CLIENT_ID :: string
  CLIENT_SECRET :: string
  SENDER_EMAIL :: string
  DATABASE_URL :: string
  CC_EMAIL_RECIPIENTS :: "string list"

definition APP_NAME :: string where
  "APP_NAME = ''Task Management''"

definition TEST_EMAIL_RECIPIENT :: string where
  "TEST_EMAIL_RECIPIENT = ''bhanutejathouti@gmail.com''"

text \<open>\<^verbatim>\<open>s.split(",")\<close> and \<^verbatim>\<open>s.strip()\<close> (the ASCII white space).\<close>

fun split_on :: "char \<Rightarrow> string \<Rightarrow> string list" where
  "split_on c [] = [ [] ]"
| "split_on c (x # xs) =
     (if x = c then [] # split_on c xs
      else (case split_on c xs of [] \<Rightarrow> [ [x] ] | w # ws \<Rightarrow> (x # w) # ws))"

definition is_space :: "char \<Rightarrow> bool" where
  "is_space c \<longleftrightarrow> (of_char c :: nat) = 32
     \<or> (9 \<le> (of_char c :: nat) \<and> (of_char c :: nat) \<le> 13)
     \<or> (28 \<le> (of_char c :: nat) \<and> (of_char c :: nat) \<le> 31)"

definition strip :: "string \<Rightarrow> string" where
  "strip s = rev (dropWhile is_space (rev (dropWhile is_space s)))"

definition parse_cc :: "string \<Rightarrow> string list" where
  "parse_cc s = map strip (filter (\<lambda>email. strip email \<noteq> []) (split_on CHR '','' s))"

text \<open>A value that is unset or empty is falsy.\<close>

definition is_set :: "string option \<Rightarrow> bool" where
  "is_set v = (case v of None \<Rightarrow> False | Some s \<Rightarrow> s \<noteq> [])"

definition azure_message :: string where
  \<open>azure_message =
    concat
    [''Missing required Azure AD credentials. Please set the following environment variables:\<newline>'',
     ''  - AZURE_TENANT_ID\<newline>'',
     ''  - AZURE_CLIENT_ID\<newline>'',
     ''  - AZURE_CLIENT_SECRET'']\<close>

definition database_message :: string where
  "database_message =
     ''Missing required DATABASE_URL environment variable. '' @ ''Please set it in your .env file.''"

text \<open>The statements at module level, up to the creation of the application.\<close>

definition load_config :: "environ \<Rightarrow> error + config" where
  "load_config env =
     (if \<not> (is_set (env ''AZURE_TENANT_ID'') \<and> is_set (env ''AZURE_CLIENT_ID'')
             \<and> is_set (env ''AZURE_CLIENT_SECRET''))
      then Inl (ValueError azure_message)
      else if \<not> is_set (env ''DATABASE_URL'')
      then Inl (ValueError database_message)
      else Inr \<lparr> TENANT_ID = the (env ''AZURE_TENANT_ID''),
                 CLIENT_ID = the (env ''AZURE_CLIENT_ID''),
                 CLIENT_SECRET = the (env ''AZURE_CLIENT_SECRET''),
                 SENDER_EMAIL = (case env ''SENDER_EMAIL'' of
                                   None \<Rightarrow> ''support@applywizz.com'' | Some s \<Rightarrow> s),
                 DATABASE_URL = the (env ''DATABASE_URL''),
                 CC_EMAIL_RECIPIENTS = parse_cc (case env ''CC_EMAIL_RECIPIENTS'' of
                                                   None \<Rightarrow> [] | Some s \<Rightarrow> s) \<rparr>)"

subsection \<open>The store and the network, and what the script does to them\<close>

text \<open>
  How the outside answers during one run: whether the connection opens, how the one
  query ends, what the token endpoint and the mail endpoint reply, and the clock.
\<close>

datatype query_outcome = Rows | PgError | OtherFailure string

record token_reply =
  token_ok :: bool
  token_field :: "string option"

record outside =
  connect_ok :: bool
  query_result :: query_outcome
  store :: database
  token_response :: token_reply
  mail_ok :: bool
  clock :: utc

record mail_request =
  mail_sender :: string
  mail_bearer :: string
  mail_subject :: string
  mail_content :: string
  mail_to :: string
  mail_cc :: "string list option"
  mail_save :: bool

text \<open>The calls that leave the process, in the order they are made.\<close>

datatype event =
    Connect string
  | Execute
  | Close
  | TokenPost string string string
  | MailPost mail_request

definition is_network :: "event \<Rightarrow> bool" where
  "is_network e = (case e of TokenPost _ _ _ \<Rightarrow> True | MailPost _ \<Rightarrow> True | _ \<Rightarrow> False)"

definition is_store :: "event \<Rightarrow> bool" where
  "is_store e = (case e of Connect _ \<Rightarrow> True | Execute \<Rightarrow> True | Close \<Rightarrow> True | _ \<Rightarrow> False)"

definition get_db_connection :: "config \<Rightarrow> outside \<Rightarrow> (error + unit) \<times> event list" where
  "get_db_connection cfg w =
     (if connect_ok w then (Inr (), [Connect (DATABASE_URL cfg)])
      else (Inl (HTTPException 500 ''Database connection failed''), [Connect (DATABASE_URL cfg)]))"

text \<open>\<^verbatim>\<open>dict(row)\<close> for a row of the cursor.\<close>

definition opt_val :: "string option \<Rightarrow> pyval" where
  "opt_val v = (case v of None \<Rightarrow> PNone | Some s \<Rightarrow> PStr s)"

definition dict_of_row :: "summary_row \<Rightarrow> pydict" where
  "dict_of_row r =
     [(''apw_id'', opt_val (apw_id r)),
      (''lead_email'', opt_val (lead_email_col r)),
      (''ca_name'', opt_val (ca_name r)),
      (''ca_email'', opt_val (ca_email r)),
      (''completed_75_plus'', PInt (int (completed_75_plus r))),
      (''pending_75_plus'', PInt (int (pending_75_plus r))),
      (''in_progress_75_plus'', PInt (int (in_progress_75_plus r))),
      (''not_relevant_75_plus'', PInt (int (not_relevant_75_plus r))),
      (''job_not_found_75_plus'', PInt (int (job_not_found_75_plus r))),
      (''already_applied_75_plus'', PInt (int (already_applied_75_plus r)))]"

text \<open>
  The connection is opened outside the \<^verbatim>\<open>try\<close>; inside it the query either returns its
  rows, raises a \<^verbatim>\<open>psycopg2.Error\<close> (turned into an HTTP error) or raises something
  else (passed on); \<^verbatim>\<open>finally\<close> closes the connection in all three cases.
\<close>

definition get_task_status_summary :: "config \<Rightarrow> outside \<Rightarrow> (error + pydict list) \<times> event list" where
  "get_task_status_summary cfg w =
     (case get_db_connection cfg w of
        (Inl e, evs) \<Rightarrow> (Inl e, evs)
      | (Inr conn, evs) \<Rightarrow>
          (case query_result w of
             Rows \<Rightarrow> (Inr (map dict_of_row (run_query (store w))), evs @ [Execute, Close])
           | PgError \<Rightarrow> (Inl (HTTPException 500 ''Database query failed''), evs @ [Execute, Close])
           | OtherFailure m \<Rightarrow> (Inl (OtherException m), evs @ [Execute, Close])))"

definition get_access_token :: "config \<Rightarrow> outside \<Rightarrow> (error + string) \<times> event list" where
  "get_access_token cfg w =
     (let evs = [TokenPost (TENANT_ID cfg) (CLIENT_ID cfg) (CLIENT_SECRET cfg)] in
      if \<not> token_ok (token_response w)
      then (Inl (HTTPException 500 ''Failed to get access token from Azure AD''), evs)
      else if \<not> is_set (token_field (token_response w))
      then (Inl (HTTPException 500 ''No access token received from Azure AD''), evs)
      else (Inr (the (token_field (token_response w))), evs))"

definition send_mail_via_graph ::
    "config \<Rightarrow> outside \<Rightarrow> string \<Rightarrow> string \<Rightarrow> string \<Rightarrow> string list \<Rightarrow> (error + unit) \<times> event list" where
  "send_mail_via_graph cfg w to subject html cc =
     (case get_access_token cfg w of
        (Inl e, evs) \<Rightarrow> (Inl e, evs)
      | (Inr access_token, evs) \<Rightarrow>
          (let payload = \<lparr> mail_sender = SENDER_EMAIL cfg, mail_bearer = access_token,
                           mail_subject = subject, mail_content = html, mail_to = to,
                           mail_cc = (if cc \<noteq> [] then Some cc else None),
                           mail_save = True \<rparr>
           in if mail_ok w then (Inr (), evs @ [MailPost payload])
              else (Inl (HTTPException 500 ''Failed to send email via Microsoft Graph''),
                    evs @ [MailPost payload])))"

subsection \<open>send\_task\_status\_report\<close>

text \<open>The object returned to the caller: keys in the order written, with their values.\<close>

datatype json = JBool bool | JInt int | JStr string | JRows "pydict list"

type_synonym response = "(string \<times> json) list"

text \<open>The greater-or-equal sign of the subject line, as the bytes of the source text.\<close>

definition ge_sign :: string where
  "ge_sign = [CHR 0xE2, CHR 0x80, CHR 0x9A, CHR 0xC3, CHR 0xA2, CHR 0xE2, CHR 0x80, CHR 0xA2]"

definition report_subject :: "utc \<Rightarrow> string" where
  "report_subject now =
     APP_NAME @ '' - Daily Task Status Report (Score '' @ ge_sign @ '' 75) - '' @ strftime_date now"

definition no_tasks_response :: response where
  "no_tasks_response =
     [(''success'', JBool True),
      (''message'', JStr ''No tasks found for today with score >= 75''),
      (''task_count'', JInt 0),
      (''email_sent'', JBool False)]"

definition sent_response :: "pydict list \<Rightarrow> response" where
  "sent_response task_summary =
     [(''success'', JBool True),
      (''message'', JStr (''Daily task status report sent for '' @ str_nat (length task_summary)
                          @ '' lead-CA combination(s)'')),
      (''task_combinations_count'', JInt (int (length task_summary))),
      (''tasks_data'', JRows task_summary),
      (''email_sent'', JBool True),
      (''email_sent_to'', JStr TEST_EMAIL_RECIPIENT)]"

text \<open>
  The lines that only print to the console are left out: they follow the dispatch,
  read keys every row of the cursor has, and change nothing that is returned.
\<close>

definition send_task_status_report :: "config \<Rightarrow> outside \<Rightarrow> (error + response) \<times> event list" where
  "send_task_status_report cfg w =
     (case get_task_status_summary cfg w of
        (Inl e, evs) \<Rightarrow> (Inl e, evs)
      | (Inr task_summary, evs) \<Rightarrow>
          if task_summary = [] then (Inr no_tasks_response, evs)
          else
            (case build_task_status_email_template APP_NAME task_summary default_support_url
                    (clock w) of
               Inl e \<Rightarrow> (Inl e, evs)
             | Inr html \<Rightarrow>
                 (case send_mail_via_graph cfg w TEST_EMAIL_RECIPIENT (report_subject (clock w))
                         html (CC_EMAIL_RECIPIENTS cfg) of
                    (Inl e, evs') \<Rightarrow> (Inl e, evs @ evs')
                  | (Inr u, evs') \<Rightarrow> (Inr (sent_response task_summary), evs @ evs'))))"

text \<open>
  Running the file: the module level first, and the report only if that did not raise.
\<close>

definition run_script :: "environ \<Rightarrow> outside \<Rightarrow> (error + response) \<times> event list" where
  "run_script env w =
     (case load_config env of
        Inl e \<Rightarrow> (Inl e, [])
      | Inr cfg \<Rightarrow> send_task_status_report cfg w)"

subsection \<open>Reading rows and responses\<close>

text \<open>The six count keys of a row, and a row whose counts, where present, are integers.\<close>

definition count_keys :: "string list" where
  "count_keys = [''completed_75_plus'', ''pending_75_plus'', ''in_progress_75_plus'',
     ''not_relevant_75_plus'', ''job_not_found_75_plus'', ''already_applied_75_plus'']"

definition is_int :: "pyval \<Rightarrow> bool" where
  "is_int v = (case v of PInt _ \<Rightarrow> True | _ \<Rightarrow> False)"

definition counts_are_ints :: "pydict \<Rightarrow> bool" where
  "counts_are_ints task = list_all (\<lambda>k. is_int (dict_get task k (PInt 0))) count_keys"

definition count_of :: "pydict \<Rightarrow> string \<Rightarrow> int" where
  "count_of task k = (case dict_get task k (PInt 0) of PInt n \<Rightarrow> n | _ \<Rightarrow> 0)"


text \<open>
  The row of the table that shows the given twelve texts, and the rows expected for a
  sequence of input rows: number, the four identifying cells, the six counts as given,
  and their sum.
\<close>

definition table_row :: "string list \<Rightarrow> string" where
  "table_row cells = fstring row_literals cells"

definition id_cells :: "pydict \<Rightarrow> string list" where
  "id_cells task =
     [py_str (py_or (dict_get task ''apw_id'' (PStr ''N/A'')) (PStr ''N/A'')),
      py_str (dict_get task ''lead_email'' (PStr ''N/A'')),
      py_str (py_or (dict_get task ''ca_name'' (PStr ''N/A'')) (PStr ''N/A'')),
      py_str (py_or (dict_get task ''ca_email'' (PStr ''N/A'')) (PStr ''N/A''))]"

definition expected_cells :: "nat \<Rightarrow> pydict \<Rightarrow> string list" where
  "expected_cells idx task =
     str_nat idx # id_cells task
       @ map (\<lambda>k. str_int (count_of task k)) count_keys
       @ [str_int (sum_list (map (count_of task) count_keys))]"

fun expected_rows :: "nat \<Rightarrow> pydict list \<Rightarrow> string" where
  "expected_rows idx [] = []"
| "expected_rows idx (task # rest) = table_row (expected_cells idx task) @ expected_rows (Suc idx) rest"

subsection \<open>A configuration and an outside for the examples\<close>

definition ex_env :: environ where
  "ex_env = [''AZURE_TENANT_ID'' \<mapsto> ''tenant'', ''AZURE_CLIENT_ID'' \<mapsto> ''client'',
             ''AZURE_CLIENT_SECRET'' \<mapsto> ''secret'', ''DATABASE_URL'' \<mapsto> ''postgres://db'']"

definition ex_cfg :: config where
  "ex_cfg = \<lparr> TENANT_ID = ''tenant'', CLIENT_ID = ''client'', CLIENT_SECRET = ''secret'',
              SENDER_EMAIL = ''support@applywizz.com'', DATABASE_URL = ''postgres://db'',
              CC_EMAIL_RECIPIENTS = [] \<rparr>"

definition ex_clock :: utc where
  "ex_clock = \<lparr> utc_year = 2025, utc_month = 12, utc_day = 23, utc_hour = 9, utc_minute = 5 \<rparr>"

definition ex_outside :: "database \<Rightarrow> query_outcome \<Rightarrow> outside" where
  "ex_outside db q =
     \<lparr> connect_ok = True, query_result = q, store = db,
       token_response = \<lparr> token_ok = True, token_field = Some ''tok'' \<rparr>,
       mail_ok = True, clock = ex_clock \<rparr>"



section \<open>Properties of the aggregation\<close>

subsection \<open>Ordering keeps the rows\<close>

lemma set_insert_row: "set (insert_row r xs) = insert r (set xs)"
  by (induction xs) auto

lemma set_order_by: "set (order_by xs) = set xs"
  by (induction xs) (auto simp: set_insert_row)

lemma sum_insert_row: "sum_list (map f (insert_row r xs)) = (f r :: nat) + sum_list (map f xs)"
  by (induction xs) auto

lemma sum_order_by: "sum_list (map f (order_by xs)) = (sum_list (map f xs) :: nat)"
  by (induction xs) (auto simp: sum_insert_row)

lemma distinct_insert_row:
  "distinct (map g (insert_row r xs)) \<longleftrightarrow> g r \<notin> g ` set xs \<and> distinct (map g xs)"
  by (induction xs) (auto simp: set_insert_row)

lemma distinct_order_by: "distinct (map g (order_by xs)) \<longleftrightarrow> distinct (map g xs)"
  by (induction xs) (auto simp: distinct_insert_row set_order_by)

subsection \<open>One row per group, and what its counters add up to\<close>

lemma row_key_select_row: "row_key (select_row k grp) = k"
  by (cases k) (simp add: row_key_def select_row_def)

lemma map_row_key_group_by: "map row_key (group_by js) = remdups (map key_of js)"
  by (simp add: group_by_def row_key_select_row o_def)

text \<open>The six names are different, so a joined row adds to at most one counter.\<close>

lemma status_total:
  "(if 75 \<le> j_score j \<and> status_is ''completed'' j then 1 else 0)
   + (if 75 \<le> j_score j \<and> status_is ''pending'' j then 1 else 0)
   + (if 75 \<le> j_score j \<and> status_is ''in_progress'' j then 1 else 0)
   + (if 75 \<le> j_score j \<and> status_is ''not_relevant'' j then 1 else 0)
   + (if 75 \<le> j_score j \<and> status_is ''job_not_found'' j then 1 else 0)
   + (if 75 \<le> j_score j \<and> status_is ''already_applied'' j then 1 else 0)
   = (if 75 \<le> j_score j \<and> recognized (j_status j) then 1 else (0::nat))"
  by (cases "j_status j") (auto simp: status_is_def recognized_def)

lemma row_total_select_row:
  "row_total (select_row k grp) =
     length (filter (\<lambda>j. 75 \<le> j_score j \<and> recognized (j_status j)) grp)"
proof (induction grp)
  case Nil
  show ?case by (cases k) (simp add: row_total_def select_row_def count_filter_def)
next
  case (Cons j grp)
  have "row_total (select_row k (j # grp)) = row_total (select_row k grp)
      + (if 75 \<le> j_score j \<and> recognized (j_status j) then 1 else 0)"
    unfolding status_total [symmetric]
    by (cases k) (simp add: row_total_def select_row_def count_filter_def)
  with Cons show ?case by simp
qed

lemma length_filter_map_filter:
  "length (filter Q (List.map_filter f xs)) =
     length (filter (\<lambda>x. case f x of None \<Rightarrow> False | Some y \<Rightarrow> Q y) xs)"
  by (induction xs) (auto simp: List.map_filter_simps split: option.splits)

lemma sum_list_delta:
  "distinct ks \<Longrightarrow>
     (\<Sum>k\<leftarrow>ks. if a = k \<and> b then 1 else 0) = (if a \<in> set ks \<and> b then 1 else (0::nat))"
  by (induction ks) auto

lemma sum_groups:
  "distinct ks \<Longrightarrow> key ` set js \<subseteq> set ks \<Longrightarrow>
    (\<Sum>k\<leftarrow>ks. length (filter (\<lambda>j. key j = k \<and> P j) js)) = length (filter P js)"
proof (induction js)
  case Nil
  then show ?case by simp
next
  case (Cons j js)
  have "(\<Sum>k\<leftarrow>ks. length (filter (\<lambda>j. key j = k \<and> P j) (j # js)))
      = (\<Sum>k\<leftarrow>ks. (if key j = k \<and> P j then 1 else 0)
            + length (filter (\<lambda>j. key j = k \<and> P j) js))"
    by (rule arg_cong [where f = sum_list]) (rule map_cong, auto)
  also have "\<dots> = (\<Sum>k\<leftarrow>ks. if key j = k \<and> P j then 1 else 0)
       + (\<Sum>k\<leftarrow>ks. length (filter (\<lambda>j. key j = k \<and> P j) js))"
    by (simp add: sum_list_addf)
  also have "\<dots> = (if P j then 1 else 0) + length (filter P js)"
    using Cons by (simp add: sum_list_delta)
  finally show ?case by simp
qed

lemma run_query_row:
  assumes "r \<in> set (run_query db)"
  shows "\<exists>k. r = select_row k (group_of k (where_clause (from_clause db)))"
proof -
  from assms have "r \<in> (\<lambda>k. select_row k (group_of k (where_clause (from_clause db))))
                     ` (key_of ` set (where_clause (from_clause db)))"
    by (simp add: run_query_def set_order_by group_by_def)
  then show ?thesis by blast
qed

lemma join_task_fields:
  "join_task db t = Some j \<Longrightarrow> j_createdAt j = task_createdAt t \<and> j_status j = task_status t"
  by (auto simp: join_task_def split: option.splits)

lemma join_task_tasks: "join_task (db\<lparr>karmafy_task := xs\<rparr>) = join_task db"
proof -
  have l: "left_join_op (db\<lparr>karmafy_task := xs\<rparr>) = left_join_op db"
    by (rule ext) (simp add: left_join_op_def split: option.splits)
  show ?thesis
    by (rule ext) (simp add: join_task_def l split: option.splits)
qed

lemma group_count_tasks:
  "length (filter (\<lambda>j. 75 \<le> j_score j \<and> recognized (j_status j))
            (group_of k (where_clause (from_clause db))))
   = length (counted_in_group db k)"
proof -
  have "length (filter (\<lambda>j. 75 \<le> j_score j \<and> recognized (j_status j))
            (group_of k (where_clause (from_clause db))))
      = length (filter (\<lambda>j. (75 \<le> j_score j \<and> recognized (j_status j)) \<and> key_of j = k
                  \<and> in_window (j_createdAt j)) (from_clause db))"
    by (simp add: group_of_def where_clause_def conj_ac)
  also have "\<dots> = length (counted_in_group db k)"
    unfolding from_clause_def length_filter_map_filter counted_in_group_def
    by (rule arg_cong [where f = length], rule filter_cong)
       (auto simp: eligible_def task_key_def dest: join_task_fields split: option.splits)
  finally show ?thesis .
qed

lemma total_counted_joined:
  "total_counted (group_by js)
     = length (filter (\<lambda>j. 75 \<le> j_score j \<and> recognized (j_status j)) js)"
proof -
  have "total_counted (group_by js)
      = (\<Sum>k\<leftarrow>remdups (map key_of js).
            length (filter (\<lambda>j. key_of j = k \<and> (75 \<le> j_score j \<and> recognized (j_status j))) js))"
    by (simp add: total_counted_def group_by_def o_def row_total_select_row group_of_def
          conj_commute)
  also have "\<dots> = length (filter (\<lambda>j. 75 \<le> j_score j \<and> recognized (j_status j)) js)"
    by (rule sum_groups) auto
  finally show ?thesis .
qed

lemma total_counted_tasks:
  "total_counted (run_query db)
     = length (filter (\<lambda>t. eligible db t \<and> recognized (task_status t)) (karmafy_task db))"
proof -
  have "total_counted (run_query db)
      = length (filter (\<lambda>j. (75 \<le> j_score j \<and> recognized (j_status j))
                              \<and> in_window (j_createdAt j)) (from_clause db))"
    by (simp add: run_query_def total_counted_def sum_order_by where_clause_def
          total_counted_joined [unfolded total_counted_def] conj_ac)
  also have "\<dots> = length (filter (\<lambda>t. eligible db t \<and> recognized (task_status t))
                       (karmafy_task db))"
    unfolding from_clause_def length_filter_map_filter
    by (rule arg_cong [where f = length], rule filter_cong)
       (auto simp: eligible_def dest: join_task_fields split: option.splits)
  finally show ?thesis .
qed

lemma where_from_tasks:
  "filter (\<lambda>j. in_window (j_createdAt j)) (List.map_filter (join_task db) ts)
     = List.map_filter (join_task db) (filter (\<lambda>t. in_window (task_createdAt t)) ts)"
  by (induction ts)
     (auto simp: List.map_filter_simps dest: join_task_fields split: option.splits)

lemma map_map_filter: "map g (List.map_filter f xs) = List.map_filter (\<lambda>x. map_option g (f x)) xs"
  by (induction xs) (auto simp: List.map_filter_simps split: option.splits)

lemma keys_of_window: "map key_of (where_clause (from_clause db)) = window_keys db"
  unfolding where_clause_def from_clause_def where_from_tasks map_map_filter
  by (simp add: window_keys_def task_key_def [abs_def])

text \<open>The rows are those of the groups formed by the tasks of the window, one row each.\<close>

lemma row_keys_of_window:
  "distinct (map row_key (run_query db))
   \<and> set (map row_key (run_query db)) = set (window_keys db)"
proof -
  have "set (map row_key (run_query db)) = row_key ` set (group_by (where_clause (from_clause db)))"
    by (simp add: run_query_def set_order_by)
  also have "\<dots> = set (map row_key (group_by (where_clause (from_clause db))))"
    by simp
  also have "\<dots> = set (window_keys db)"
    unfolding map_row_key_group_by by (simp add: keys_of_window)
  finally have "set (map row_key (run_query db)) = set (window_keys db)" .
  moreover have "distinct (map row_key (run_query db))"
    unfolding run_query_def distinct_order_by map_row_key_group_by by simp
  ultimately show ?thesis by blast
qed

subsection \<open>Letter case of the status\<close>

lemma status_is_lower: "status_is name j \<longleftrightarrow> map_option lower (j_status j) = Some name"
  by (cases "j_status j") (simp_all add: status_is_def)

lemma join_task_alike:
  assumes "same_up_to_case t t'"
  shows "rel_option joined_alike (join_task db t) (join_task db t')"
  using assms
  by (auto simp: same_up_to_case_def join_task_def left_join_op_def joined_alike_def key_of_def
           split: option.splits)

lemma from_clause_alike:
  "list_all2 same_up_to_case ts ts' \<Longrightarrow>
     list_all2 joined_alike (List.map_filter (join_task db) ts) (List.map_filter (join_task db) ts')"
proof (induction rule: list_all2_induct)
  case Nil
  show ?case by (simp add: List.map_filter_simps)
next
  case (Cons t ts t' ts')
  from join_task_alike [OF Cons.hyps(1), of db] Cons.IH
  show ?case
    by (cases "join_task db t"; cases "join_task db t'") (simp_all add: List.map_filter_simps)
qed

lemma where_clause_alike:
  "list_all2 joined_alike js js' \<Longrightarrow> list_all2 joined_alike (where_clause js) (where_clause js')"
  by (induction rule: list_all2_induct) (auto simp: where_clause_def joined_alike_def)

lemma keys_alike: "list_all2 joined_alike js js' \<Longrightarrow> map key_of js = map key_of js'"
  by (induction rule: list_all2_induct) (auto simp: joined_alike_def)

lemma counted_alike:
  "joined_alike j j' \<Longrightarrow>
     (key_of j = k \<and> 75 \<le> j_score j \<and> status_is name j)
       = (key_of j' = k \<and> 75 \<le> j_score j' \<and> status_is name j')"
  by (simp add: joined_alike_def status_is_lower)

lemma count_filter_alike:
  "list_all2 joined_alike js js' \<Longrightarrow>
     count_filter name (group_of k js) = count_filter name (group_of k js')"
proof (induction rule: list_all2_induct)
  case Nil
  show ?case by simp
next
  case (Cons j js j' js')
  from counted_alike [OF Cons.hyps(1), of k name] Cons.IH show ?case
    by (auto simp: count_filter_def group_of_def)
qed

lemma group_by_alike:
  assumes "list_all2 joined_alike js js'"
  shows "group_by js = group_by js'"
  unfolding group_by_def keys_alike [OF assms]
  by (rule map_cong [OF refl])
     (simp add: select_row_def count_filter_alike [OF assms] split: prod.splits)

section \<open>Properties of the script\<close>

subsection \<open>Rendering rows whose counts are integers\<close>

lemma total_tasks_ints:
  assumes "counts_are_ints task"
  shows "total_tasks task = Inr (PInt (sum_list (map (count_of task) count_keys)))"
  using assms
  by (auto simp: total_tasks_def counts_are_ints_def count_keys_def is_int_def count_of_def
           split: pyval.splits)

lemma row_values_ints:
  assumes "counts_are_ints task"
  shows "row_values idx task =
     Inr [PInt (int idx),
          py_or (dict_get task ''apw_id'' (PStr ''N/A'')) (PStr ''N/A''),
          dict_get task ''lead_email'' (PStr ''N/A''),
          py_or (dict_get task ''ca_name'' (PStr ''N/A'')) (PStr ''N/A''),
          py_or (dict_get task ''ca_email'' (PStr ''N/A'')) (PStr ''N/A''),
          dict_get task ''completed_75_plus'' (PInt 0),
          dict_get task ''pending_75_plus'' (PInt 0),
          dict_get task ''in_progress_75_plus'' (PInt 0),
          dict_get task ''not_relevant_75_plus'' (PInt 0),
          dict_get task ''job_not_found_75_plus'' (PInt 0),
          dict_get task ''already_applied_75_plus'' (PInt 0),
          PInt (sum_list (map (count_of task) count_keys))]"
  by (simp add: row_values_def total_tasks_ints [OF assms])

lemma py_str_count:
  "is_int (dict_get task k (PInt 0)) \<Longrightarrow>
     py_str (dict_get task k (PInt 0)) = str_int (count_of task k)"
  by (simp add: is_int_def count_of_def split: pyval.splits)

lemma str_int_nat: "str_int (int n) = str_nat n"
  by (simp add: str_int_def)

lemma render_row_ints:
  assumes "counts_are_ints task"
  shows "render_row idx task = Inr (table_row (expected_cells idx task))"
proof -
  from assms have "\<forall>k \<in> set count_keys. is_int (dict_get task k (PInt 0))"
    by (simp add: counts_are_ints_def list_all_iff)
  then have "map py_str (map (\<lambda>k. dict_get task k (PInt 0)) count_keys)
               = map (\<lambda>k. str_int (count_of task k)) count_keys"
    by (simp add: py_str_count)
  then show ?thesis
    by (simp add: render_row_def row_values_ints [OF assms] table_row_def expected_cells_def
          id_cells_def str_int_nat count_keys_def)
qed

lemma task_rows_loop_ints:
  assumes "\<forall>task \<in> set tasks. counts_are_ints task"
  shows "task_rows_loop idx tasks acc = Inr (acc @ expected_rows idx tasks)"
  using assms
  by (induction tasks arbitrary: idx acc) (simp_all add: render_row_ints)

text \<open>Every row the cursor returns has integer counts.\<close>

lemma counts_are_ints_dict_of_row: "counts_are_ints (dict_of_row r)"
  by (simp add: counts_are_ints_def count_keys_def dict_of_row_def dict_get_def is_int_def)

lemma build_on_summary:
  "build_task_status_email_template app_name (map dict_of_row rs) support_url now =
     Inr (html_document app_name (length rs) (expected_rows 1 (map dict_of_row rs))
            support_url now)"
  by (simp add: build_task_status_email_template_def task_rows_loop_ints
        counts_are_ints_dict_of_row)

subsection \<open>What leaves the process\<close>

lemma summary_events:
  assumes "connect_ok w"
  shows "snd (get_task_status_summary cfg w) = [Connect (DATABASE_URL cfg), Execute, Close]"
  using assms
  by (simp add: get_task_status_summary_def get_db_connection_def split: query_outcome.splits)

lemma summary_rows:
  assumes "get_task_status_summary cfg w = (Inr rows, evs)"
  shows "rows = map dict_of_row (run_query (store w))
         \<and> evs = [Connect (DATABASE_URL cfg), Execute, Close]"
  using assms
  by (auto simp: get_task_status_summary_def get_db_connection_def
           split: query_outcome.splits if_splits)

lemma token_events:
  assumes "get_access_token cfg w = (r, evs)"
  shows "evs = [TokenPost (TENANT_ID cfg) (CLIENT_ID cfg) (CLIENT_SECRET cfg)]"
  using assms by (simp add: get_access_token_def Let_def split: if_splits)

lemma mail_events_pair:
  assumes "send_mail_via_graph cfg w to subject html cc = (r, evs)"
  shows "list_all is_network evs"
proof (cases "get_access_token cfg w")
  case (Pair res tevs)
  then have t: "tevs = [TokenPost (TENANT_ID cfg) (CLIENT_ID cfg) (CLIENT_SECRET cfg)]"
    by (rule token_events)
  show ?thesis
  proof (cases res)
    case (Inl e)
    with Pair t assms show ?thesis
      by (auto simp: send_mail_via_graph_def is_network_def)
  next
    case (Inr tok)
    with Pair t assms show ?thesis
      by (auto simp: send_mail_via_graph_def is_network_def Let_def split: if_splits)
  qed
qed

lemma report_returns:
  assumes "fst (send_task_status_report cfg w) = Inr resp"
  shows "resp = (if run_query (store w) = [] then no_tasks_response
                 else sent_response (map dict_of_row (run_query (store w))))"
proof (cases "get_task_status_summary cfg w")
  case (Pair res evs)
  show ?thesis
  proof (cases res)
    case (Inl e)
    with Pair assms show ?thesis by (simp add: send_task_status_report_def)
  next
    case (Inr rows)
    with Pair have r: "rows = map dict_of_row (run_query (store w))"
      using summary_rows by blast
    from assms Pair Inr show ?thesis
      unfolding r
      by (auto simp: send_task_status_report_def split: if_splits sum.splits prod.splits)
  qed
qed

text \<open>When the store and both endpoints answer and there is a row, the report is sent.\<close>

lemma report_sent:
  assumes "connect_ok w" and "query_result w = Rows" and "run_query (store w) \<noteq> []"
    and "token_ok (token_response w)" and "is_set (token_field (token_response w))"
    and "mail_ok w"
  shows "fst (send_task_status_report cfg w)
           = Inr (sent_response (map dict_of_row (run_query (store w))))"
  using assms
  by (simp add: send_task_status_report_def get_task_status_summary_def get_db_connection_def
        build_on_summary send_mail_via_graph_def get_access_token_def Let_def)

lemma report_empty:
  assumes "connect_ok w" and "query_result w = Rows" and "run_query (store w) = []"
  shows "send_task_status_report cfg w
           = (Inr no_tasks_response, [Connect (DATABASE_URL cfg), Execute, Close])"
  using assms
  by (simp add: send_task_status_report_def get_task_status_summary_def get_db_connection_def)

section \<open>The claims about the aggregation\<close>

text \<open>
  C1 (as amended). For every row of the result, the six status counts add up to the
  number of tasks of the row's group (lead external id, lead email, operator name,
  operator email) that were created in the window, have a score of at least 75 and
  whose status is, up to letter case, one of the six recognised values.
\<close>

theorem count_consistency:
  "\<forall>r \<in> set (run_query db). row_total r = length (counted_in_group db (row_key r))"
proof
  fix r assume "r \<in> set (run_query db)"
  then obtain k where r: "r = select_row k (group_of k (where_clause (from_clause db)))"
    using run_query_row by blast
  show "row_total r = length (counted_in_group db (row_key r))"
    unfolding r row_key_select_row row_total_select_row group_count_tasks ..
qed

theorem count_consistency_witness:
  "jane_row 1 1 \<in> set (run_query (mk_db [mk_task ''Completed'' window_start,
       mk_task ''pending'' window_start, mk_task ''failed'' window_start] 80))
   \<and> row_total (jane_row 1 1) = 2
   \<and> length (counted_in_group (mk_db [mk_task ''Completed'' window_start,
       mk_task ''pending'' window_start, mk_task ''failed'' window_start] 80)
         (row_key (jane_row 1 1))) = 2"
proof -
  have m: "jane_row 1 1 \<in> set (run_query (mk_db [mk_task ''Completed'' window_start,
       mk_task ''pending'' window_start, mk_task ''failed'' window_start] 80))"
    by code_simp
  have t: "row_total (jane_row 1 1) = 2"
    by code_simp
  from count_consistency [of "mk_db [mk_task ''Completed'' window_start,
       mk_task ''pending'' window_start, mk_task ''failed'' window_start] 80"] m t
  show ?thesis by auto
qed

text \<open>
  C1 as stated fails: a task in the window with score 80 and the status \<open>failed\<close> is an
  eligible task of its group, and no counter of the group's row counts it.
\<close>

theorem count_consistency_counterexample:
  "run_query (mk_db [mk_task ''failed'' window_start] 80) = [jane_row 0 0]
   \<and> row_total (jane_row 0 0) = 0
   \<and> length (eligible_in_group (mk_db [mk_task ''failed'' window_start] 80)
        (row_key (jane_row 0 0))) = 1"
  by code_simp

text \<open>
  C2. Exactly one row per distinct (lead, operator) pair among the eligible tasks, and
  no row for a pair without an eligible task. The query does not meet the second half:
  the score test sits in the six \<^verbatim>\<open>FILTER\<close>s and not in the
  \<^verbatim>\<open>WHERE\<close> clause, so a single task created in the window with score 10 is not eligible,
  no task of its pair is, and the pair still gets a row, with six zero counts.
\<close>

theorem zero_row_without_eligible_task:
  "run_query (mk_db [mk_task ''completed'' window_start] 10) = [jane_row 0 0]
   \<and> row_total (jane_row 0 0) = 0
   \<and> eligible_keys (mk_db [mk_task ''completed'' window_start] 10) = []
   \<and> eligible_in_group (mk_db [mk_task ''completed'' window_start] 10)
        (row_key (jane_row 0 0)) = []"
  by code_simp

text \<open>
  C3 (as amended). A task adds one to the counters of the result exactly when it joins,
  its creation time lies in the half-open window, its score is at least 75 and its
  status is, up to letter case, one of the six recognised values; otherwise it adds
  nothing. The window includes its start and excludes its end; score 75 is included and
  74 is not.
\<close>

theorem filtering_rule:
  "total_counted (run_query (db\<lparr>karmafy_task := t # ts\<rparr>))
     = total_counted (run_query (db\<lparr>karmafy_task := ts\<rparr>))
       + (if eligible db t \<and> recognized (task_status t) then 1 else 0)"
proof -
  have e: "eligible (db\<lparr>karmafy_task := xs\<rparr>) = eligible db" for xs
    by (rule ext) (simp add: eligible_def join_task_tasks)
  show ?thesis
    unfolding total_counted_tasks e by simp
qed

theorem filtering_rule_witness:
  "total_counted (run_query (mk_db [mk_task ''completed'' window_start] 75)) = 1
   \<and> total_counted (run_query (mk_db [mk_task ''completed'' (window_end - 1)] 75)) = 1
   \<and> total_counted (run_query (mk_db [mk_task ''completed'' window_end] 75)) = 0
   \<and> total_counted (run_query (mk_db [mk_task ''completed'' (window_start - 1)] 75)) = 0
   \<and> total_counted (run_query (mk_db [mk_task ''completed'' window_start] 74)) = 0"
proof -
  have u: "(mk_db [] sc)\<lparr>karmafy_task := xs\<rparr> = mk_db xs sc" for xs sc
    by (simp add: mk_db_def)
  have z: "total_counted (run_query (mk_db [] sc)) = 0" for sc
    by (simp add: total_counted_tasks mk_db_def)
  have e1: "eligible (mk_db [] 75) (mk_task ''completed'' window_start)
              \<and> recognized (task_status (mk_task ''completed'' window_start))"
    by code_simp
  have e2: "eligible (mk_db [] 75) (mk_task ''completed'' (window_end - 1))"
    by code_simp
  have e3: "\<not> eligible (mk_db [] 75) (mk_task ''completed'' window_end)"
    by code_simp
  have e4: "\<not> eligible (mk_db [] 75) (mk_task ''completed'' (window_start - 1))"
    by code_simp
  have e5: "\<not> eligible (mk_db [] 74) (mk_task ''completed'' window_start)"
    by code_simp
  have r: "recognized (task_status (mk_task ''completed'' x))" for x
    using e1 by (simp add: mk_task_def)
  show ?thesis
    using filtering_rule [where db = "mk_db [] 75" and t = "mk_task ''completed'' window_start" and ts = "[]"]
      filtering_rule [where db = "mk_db [] 75" and t = "mk_task ''completed'' (window_end - 1)" and ts = "[]"]
      filtering_rule [where db = "mk_db [] 75" and t = "mk_task ''completed'' window_end" and ts = "[]"]
      filtering_rule [where db = "mk_db [] 75" and t = "mk_task ''completed'' (window_start - 1)" and ts = "[]"]
      filtering_rule [where db = "mk_db [] 74" and t = "mk_task ''completed'' window_start" and ts = "[]"]
      e1 e2 e3 e4 e5 r
    unfolding u z by simp
qed

text \<open>
  C3 as stated fails: a task created at the start of the window with score 80 and the
  status \<open>failed\<close> satisfies both conditions of the claim and is counted nowhere.
\<close>

theorem filtering_rule_counterexample:
  "in_window (task_createdAt (mk_task ''failed'' window_start))
   \<and> eligible (mk_db [mk_task ''failed'' window_start] 80) (mk_task ''failed'' window_start)
   \<and> total_counted (run_query (mk_db [mk_task ''failed'' window_start] 80)) = 0"
  by code_simp

text \<open>
  C7. The result does not depend on the letter case of the task statuses: two task
  tables that differ only in the case of their status values give the same rows, so
  \<open>Completed\<close>, \<open>COMPLETED\<close> and \<open>completed\<close> add to the same counter.
\<close>

theorem case_insensitive:
  assumes "list_all2 same_up_to_case ts ts'"
  shows "run_query (db\<lparr>karmafy_task := ts\<rparr>) = run_query (db\<lparr>karmafy_task := ts'\<rparr>)"
proof -
  have "list_all2 joined_alike (where_clause (from_clause (db\<lparr>karmafy_task := ts\<rparr>)))
          (where_clause (from_clause (db\<lparr>karmafy_task := ts'\<rparr>)))"
    unfolding from_clause_def join_task_tasks
    using from_clause_alike [OF assms] by (simp add: where_clause_alike)
  then show ?thesis
    unfolding run_query_def by (simp add: group_by_alike)
qed

theorem case_insensitive_witness:
  "list_all2 same_up_to_case
     [mk_task ''Completed'' window_start, mk_task ''COMPLETED'' window_start]
     [mk_task ''completed'' window_start, mk_task ''completed'' window_start]
   \<and> run_query (mk_db [mk_task ''Completed'' window_start, mk_task ''COMPLETED'' window_start] 80)
     = [jane_row 2 0]
   \<and> run_query (mk_db [mk_task ''Completed'' window_start, mk_task ''COMPLETED'' window_start] 80)
     = run_query (mk_db [mk_task ''completed'' window_start, mk_task ''completed'' window_start] 80)"
proof -
  have h: "list_all2 same_up_to_case
     [mk_task ''Completed'' window_start, mk_task ''COMPLETED'' window_start]
     [mk_task ''completed'' window_start, mk_task ''completed'' window_start]"
    by code_simp
  have c: "run_query (mk_db [mk_task ''Completed'' window_start, mk_task ''COMPLETED'' window_start] 80)
     = [jane_row 2 0]"
    by code_simp
  have u: "(mk_db [] 80)\<lparr>karmafy_task := xs\<rparr> = mk_db xs 80" for xs
    by (simp add: mk_db_def)
  from case_insensitive [OF h, of "mk_db [] 80"] h c show ?thesis
    unfolding u by simp
qed

section \<open>The claims about the script\<close>

subsection \<open>Worked examples\<close>

lemma outside_facts:
  "connect_ok (ex_outside db q)" "query_result (ex_outside db q) = q"
  "store (ex_outside db q) = db" "token_ok (token_response (ex_outside db q))"
  "is_set (token_field (token_response (ex_outside db q)))" "mail_ok (ex_outside db q)"
  by (simp_all add: ex_outside_def is_set_def)

lemma query_outside_window: "run_query (mk_db [mk_task ''completed'' window_end] 80) = []"
  by code_simp

lemma query_one_row: "run_query (mk_db [mk_task ''completed'' window_start] 80) = [jane_row 1 0]"
  by code_simp

lemma ex_cfg_url: "DATABASE_URL ex_cfg = ''postgres://db''"
  by (simp add: ex_cfg_def)


text \<open>
  C4 (as amended). Every normal return of \<^verbatim>\<open>send_task_status_report\<close> is an object
  with \<^verbatim>\<open>success\<close> true and a string \<^verbatim>\<open>message\<close>. When the aggregation returned at
  least one row it has exactly the six fields \<^verbatim>\<open>success\<close>, \<^verbatim>\<open>message\<close>,
  \<^verbatim>\<open>task_combinations_count\<close> (the number of rows), \<^verbatim>\<open>tasks_data\<close> (the rows),
  \<^verbatim>\<open>email_sent\<close> (true) and \<^verbatim>\<open>email_sent_to\<close> (the recipient). When the aggregation
  returned no row, \<^verbatim>\<open>email_sent\<close> is false and the object has neither
  \<^verbatim>\<open>tasks_data\<close> nor \<^verbatim>\<open>email_sent_to\<close>.
\<close>

theorem response_fields:
  assumes "fst (send_task_status_report cfg w) = Inr resp"
  shows "map_of resp ''success'' = Some (JBool True)
     \<and> (\<exists>m. map_of resp ''message'' = Some (JStr m))
     \<and> (run_query (store w) = [] \<longrightarrow>
          map_of resp ''email_sent'' = Some (JBool False)
          \<and> map_of resp ''tasks_data'' = None
          \<and> map_of resp ''email_sent_to'' = None)
     \<and> (run_query (store w) \<noteq> [] \<longrightarrow>
          map fst resp = [''success'', ''message'', ''task_combinations_count'', ''tasks_data'',
                          ''email_sent'', ''email_sent_to'']
          \<and> map_of resp ''task_combinations_count''
                = Some (JInt (int (length (run_query (store w)))))
          \<and> map_of resp ''tasks_data'' = Some (JRows (map dict_of_row (run_query (store w))))
          \<and> map_of resp ''email_sent'' = Some (JBool True)
          \<and> map_of resp ''email_sent_to'' = Some (JStr TEST_EMAIL_RECIPIENT))"
  unfolding report_returns [OF assms]
  by (simp add: no_tasks_response_def sent_response_def)

theorem response_fields_witness:
  "fst (send_task_status_report ex_cfg
          (ex_outside (mk_db [mk_task ''completed'' window_start] 80) Rows))
     = Inr (sent_response [dict_of_row (jane_row 1 0)])
   \<and> map fst (sent_response [dict_of_row (jane_row 1 0)])
       = [''success'', ''message'', ''task_combinations_count'', ''tasks_data'',
          ''email_sent'', ''email_sent_to'']
   \<and> map_of (sent_response [dict_of_row (jane_row 1 0)]) ''task_combinations_count''
       = Some (JInt 1)
   \<and> fst (send_task_status_report ex_cfg
            (ex_outside (mk_db [mk_task ''completed'' window_end] 80) Rows))
       = Inr no_tasks_response
   \<and> map_of no_tasks_response ''email_sent'' = Some (JBool False)"
proof -
  have a: "fst (send_task_status_report ex_cfg
                 (ex_outside (mk_db [mk_task ''completed'' window_start] 80) Rows))
             = Inr (sent_response [dict_of_row (jane_row 1 0)])"
    using report_sent [of "ex_outside (mk_db [mk_task ''completed'' window_start] 80) Rows" ex_cfg]
    by (simp add: outside_facts query_one_row)
  have b: "fst (send_task_status_report ex_cfg
                 (ex_outside (mk_db [mk_task ''completed'' window_end] 80) Rows))
             = Inr no_tasks_response"
    using report_empty [of "ex_outside (mk_db [mk_task ''completed'' window_end] 80) Rows" ex_cfg]
    by (simp add: outside_facts query_outside_window)
  from response_fields [OF a] response_fields [OF b] a b show ?thesis
    by (simp add: outside_facts query_one_row query_outside_window)
qed

text \<open>
  C4 as stated fails on the run it singles out: with no row from the aggregation the
  object returned has the four fields \<^verbatim>\<open>success\<close>, \<^verbatim>\<open>message\<close>, \<^verbatim>\<open>task_count\<close>
  and \<^verbatim>\<open>email_sent\<close>, and none of \<^verbatim>\<open>task_combinations_count\<close>, \<^verbatim>\<open>tasks_data\<close>
  and \<^verbatim>\<open>email_sent_to\<close>.
\<close>

theorem response_fields_counterexample:
  "send_task_status_report ex_cfg (ex_outside (mk_db [mk_task ''completed'' window_end] 80) Rows)
     = (Inr no_tasks_response, [Connect ''postgres://db'', Execute, Close])
   \<and> map fst no_tasks_response = [''success'', ''message'', ''task_count'', ''email_sent'']
   \<and> map_of no_tasks_response ''task_combinations_count'' = None
   \<and> map_of no_tasks_response ''tasks_data'' = None
   \<and> map_of no_tasks_response ''email_sent_to'' = None"
  using report_empty [of "ex_outside (mk_db [mk_task ''completed'' window_end] 80) Rows" ex_cfg]
  by (simp add: outside_facts query_outside_window ex_cfg_url no_tasks_response_def)





text \<open>
  C8. If the tenant id, the client id, the client secret or the store connection string
  is absent from the environment, loading the module raises \<^verbatim>\<open>ValueError\<close>; the run
  ends with that error before any call to the store or the network, and the report is
  never started.
\<close>

theorem startup_validation:
  assumes "env ''AZURE_TENANT_ID'' = None \<or> env ''AZURE_CLIENT_ID'' = None
           \<or> env ''AZURE_CLIENT_SECRET'' = None \<or> env ''DATABASE_URL'' = None"
  shows "\<exists>msg. load_config env = Inl (ValueError msg)
               \<and> run_script env w = (Inl (ValueError msg), [])"
  using assms by (auto simp: load_config_def run_script_def is_set_def)

theorem startup_validation_witness:
  "(ex_env(''DATABASE_URL'' := None)) ''DATABASE_URL'' = None
   \<and> run_script (ex_env(''DATABASE_URL'' := None)) (ex_outside (mk_db [] 80) Rows)
       = (Inl (ValueError database_message), [])
   \<and> (ex_env(''AZURE_CLIENT_ID'' := None)) ''AZURE_CLIENT_ID'' = None
   \<and> run_script (ex_env(''AZURE_CLIENT_ID'' := None)) (ex_outside (mk_db [] 80) Rows)
       = (Inl (ValueError azure_message), [])
   \<and> load_config ex_env = Inr ex_cfg"
proof -
  have d: "load_config (ex_env(''DATABASE_URL'' := None)) = Inl (ValueError database_message)"
    by (simp add: load_config_def ex_env_def is_set_def)
  have a: "load_config (ex_env(''AZURE_CLIENT_ID'' := None)) = Inl (ValueError azure_message)"
    by (simp add: load_config_def ex_env_def is_set_def)
  have ok: "load_config ex_env = Inr ex_cfg"
    by (simp add: load_config_def ex_env_def is_set_def ex_cfg_def parse_cc_def strip_def)
  from startup_validation [of "ex_env(''DATABASE_URL'' := None)" "ex_outside (mk_db [] 80) Rows"]
    startup_validation [of "ex_env(''AZURE_CLIENT_ID'' := None)" "ex_outside (mk_db [] 80) Rows"]
    d a ok
  show ?thesis by auto
qed

text \<open>
  C9. Whenever the connection to the store was opened, \<^verbatim>\<open>get_task_status_summary\<close>
  runs exactly one query on it and closes it as its last act, whether the query
  returned rows, raised a database error or raised anything else; whatever
  \<^verbatim>\<open>send_task_status_report\<close> does afterwards is a call to the network, not to the store.
\<close>

theorem connection_released:
  assumes "connect_ok w"
  shows "snd (get_task_status_summary cfg w) = [Connect (DATABASE_URL cfg), Execute, Close]
     \<and> (\<exists>evs. snd (send_task_status_report cfg w)
                  = [Connect (DATABASE_URL cfg), Execute, Close] @ evs
               \<and> list_all is_network evs)"
proof -
  have s: "snd (get_task_status_summary cfg w) = [Connect (DATABASE_URL cfg), Execute, Close]"
    using assms by (rule summary_events)
  obtain res where g: "get_task_status_summary cfg w
                         = (res, [Connect (DATABASE_URL cfg), Execute, Close])"
    using s by (cases "get_task_status_summary cfg w") simp
  have "\<exists>evs. snd (send_task_status_report cfg w)
                  = [Connect (DATABASE_URL cfg), Execute, Close] @ evs
               \<and> list_all is_network evs"
    by (auto simp: send_task_status_report_def g split: sum.splits prod.splits
             dest: mail_events_pair)
  with s show ?thesis by blast
qed

theorem connection_released_witness:
  "connect_ok (ex_outside (mk_db [] 80) PgError)
   \<and> get_task_status_summary ex_cfg (ex_outside (mk_db [] 80) PgError)
       = (Inl (HTTPException 500 ''Database query failed''),
          [Connect ''postgres://db'', Execute, Close])
   \<and> connect_ok (ex_outside (mk_db [] 80) Rows)
   \<and> snd (get_task_status_summary ex_cfg (ex_outside (mk_db [] 80) Rows))
       = [Connect ''postgres://db'', Execute, Close]"
proof -
  have f: "fst (get_task_status_summary ex_cfg (ex_outside (mk_db [] 80) PgError))
             = Inl (HTTPException 500 ''Database query failed'')"
    by (simp add: get_task_status_summary_def get_db_connection_def outside_facts)
  have c: "connect_ok (ex_outside (mk_db [] 80) q)" for q
    by (rule outside_facts)
  from connection_released [OF c [of PgError], of ex_cfg]
    connection_released [OF c [of Rows], of ex_cfg] f c
  show ?thesis
    by (simp add: ex_cfg_url prod_eq_iff)
qed



end
